theory Spec2Isabelle
  imports Complex_Main "HOL-Library.AList" "HOL-Library.Char_ord" "HOL-Library.List_Lexorder"
begin

section \<open>Text\<close>

text \<open>
  The module \<^verbatim>\<open>get_top_words.py\<close> works on Python \<^verbatim>\<open>str\<close> values. A string is
  modelled as a \<^typ>\<open>string\<close> whose characters stand for the code points 0 to 255; the
  classification of these code points by \<^verbatim>\<open>str.isalpha\<close>, \<^verbatim>\<open>str.lower\<close>,
  \<^verbatim>\<open>str.strip\<close> and the \<^verbatim>\<open>re\<close> module is written out below. Code points above
  255 are outside the model.
\<close>

definition code_point :: "char \<Rightarrow> nat" where
  "code_point c = of_char c"

text \<open>\<^verbatim>\<open>c.isalpha()\<close>: the letters (general categories Lu, Ll, Lo) below 256.\<close>

definition isalpha_char :: "char \<Rightarrow> bool" where
  "isalpha_char c = (let n = code_point c in
     (65 \<le> n \<and> n \<le> 90) \<or> (97 \<le> n \<and> n \<le> 122) \<or> n = 170 \<or> n = 181 \<or> n = 186 \<or>
     (192 \<le> n \<and> n \<le> 214) \<or> (216 \<le> n \<and> n \<le> 246) \<or> (248 \<le> n \<and> n \<le> 255))"

text \<open>\<^verbatim>\<open>c.lower()\<close>: the upper-case letters below 256 move up by 32, all else stays.\<close>

definition lower_char :: "char \<Rightarrow> char" where
  "lower_char c = (let n = code_point c in
     if (65 \<le> n \<and> n \<le> 90) \<or> (192 \<le> n \<and> n \<le> 214) \<or> (216 \<le> n \<and> n \<le> 222)
     then char_of (n + 32) else c)"

text \<open>White space as \<^verbatim>\<open>str.strip()\<close>, \<^verbatim>\<open>str.isspace()\<close> and the pattern
  \<^verbatim>\<open>\s\<close> see it.\<close>

definition isspace_char :: "char \<Rightarrow> bool" where
  "isspace_char c = (let n = code_point c in
     (9 \<le> n \<and> n \<le> 13) \<or> (28 \<le> n \<and> n \<le> 32) \<or> n = 133 \<or> n = 160)"

text \<open>The ASCII digits, the only decimal digits below 256.\<close>

definition isdigit_char :: "char \<Rightarrow> bool" where
  "isdigit_char c = (let n = code_point c in 48 \<le> n \<and> n \<le> 57)"

definition digit_val :: "char \<Rightarrow> nat" where
  "digit_val c = code_point c - 48"

text \<open>A word character of \<^verbatim>\<open>re\<close> (the class \<^verbatim>\<open>\w\<close> on \<^verbatim>\<open>str\<close> patterns):
  alphanumeric or the underscore. Alphanumeric adds to the letters and the decimal digits
  the superscript digits (178, 179, 185) and the fractions (188 to 190).\<close>

definition isword_char :: "char \<Rightarrow> bool" where
  "isword_char c = (let n = code_point c in
     isalpha_char c \<or> isdigit_char c \<or> n = 178 \<or> n = 179 \<or> n = 185 \<or>
     (188 \<le> n \<and> n \<le> 190) \<or> n = 95)"

definition lower :: "string \<Rightarrow> string" where
  "lower s = map lower_char s"

definition isalpha :: "string \<Rightarrow> bool" where
  "isalpha s = (s \<noteq> [] \<and> list_all isalpha_char s)"

definition strip :: "string \<Rightarrow> string" where
  "strip s = rev (dropWhile isspace_char (rev (dropWhile isspace_char s)))"

text \<open>\<^verbatim>\<open>s.startswith(p)\<close> and the substring test \<^verbatim>\<open>sub in s\<close>.\<close>

fun startswith :: "string \<Rightarrow> string \<Rightarrow> bool" where
  "startswith s [] = True"
| "startswith [] (p # ps) = False"
| "startswith (c # cs) (p # ps) = (c = p \<and> startswith cs ps)"

fun contains :: "string \<Rightarrow> string \<Rightarrow> bool" where
  "contains sub [] = (sub = [])"
| "contains sub (c # cs) = (startswith (c # cs) sub \<or> contains sub cs)"

text \<open>\<^verbatim>\<open>s.split(sep)\<close> for a separator of one character: one more field than there are
  separators, empty fields kept.\<close>

fun split :: "char \<Rightarrow> string \<Rightarrow> string list" where
  "split sep [] = [[]]"
| "split sep (c # cs) =
     (if c = sep then [] # split sep cs
      else (case split sep cs of [] \<Rightarrow> [[c]] | p # ps \<Rightarrow> (c # p) # ps))"

text \<open>\<^verbatim>\<open>s.split(sep, 1)\<close> where \<^verbatim>\<open>sep in s\<close>: the text before the first separator and
  the text after it.\<close>

definition split1 :: "char \<Rightarrow> string \<Rightarrow> string \<times> string" where
  "split1 sep s = (takeWhile (\<lambda>c. c \<noteq> sep) s, drop 1 (dropWhile (\<lambda>c. c \<noteq> sep) s))"

section \<open>The regular expressions of \<^verbatim>\<open>normalize_pos\<close>\<close>

text \<open>
  The eight patterns use literal characters (\<open>Eps\<close> is the empty literal),
  \<^verbatim>\<open>\b\<close>, \<^verbatim>\<open>\s*\<close>, \<^verbatim>\<open>?\<close>, sequence and alternation. \<open>ends r s i\<close> lists the positions where a match of \<open>r\<close> that starts at
  position \<open>i\<close> of \<open>s\<close> can end; \<^verbatim>\<open>re.search\<close> succeeds when some start position has
  an end position.
\<close>

datatype regex =
  Eps | Chr char | Spaces | WordB | Opt regex | Seq regex regex | Alt regex regex

definition word_at :: "string \<Rightarrow> nat \<Rightarrow> bool" where
  "word_at s i = (i < length s \<and> isword_char (s ! i))"

definition word_boundary :: "string \<Rightarrow> nat \<Rightarrow> bool" where
  "word_boundary s i = ((0 < i \<and> word_at s (i - 1)) \<noteq> word_at s i)"

fun ends :: "regex \<Rightarrow> string \<Rightarrow> nat \<Rightarrow> nat list" where
  "ends Eps s i = [i]"
| "ends (Chr c) s i = (if i < length s \<and> s ! i = c then [Suc i] else [])"
| "ends Spaces s i = map (\<lambda>k. i + k) [0 ..< Suc (length (takeWhile isspace_char (drop i s)))]"
| "ends WordB s i = (if word_boundary s i then [i] else [])"
| "ends (Opt r) s i = ends r s i @ [i]"
| "ends (Seq r1 r2) s i = concat (map (ends r2 s) (ends r1 s i))"
| "ends (Alt r1 r2) s i = ends r1 s i @ ends r2 s i"

definition search :: "regex \<Rightarrow> string \<Rightarrow> bool" where
  "search r s = list_ex (\<lambda>i. ends r s i \<noteq> []) [0 ..< Suc (length s)]"

text \<open>A literal word, and the shape \<^verbatim>\<open>\bWORD\.?\b\<close> shared by seven patterns.\<close>

fun lit :: "string \<Rightarrow> regex" where
  "lit [] = Eps"
| "lit [c] = Chr c"
| "lit (c # cs) = Seq (Chr c) (lit cs)"

definition abbrev :: "string \<Rightarrow> regex" where
  "abbrev w = Seq WordB (Seq (lit w) (Seq (Opt (Chr CHR ''.'')) WordB))"

text \<open>\<^verbatim>\<open>\bv\.?\s*(t\.?|i\.?)?\b\<close>\<close>

definition re_verb :: regex where
  "re_verb = Seq WordB (Seq (Chr CHR ''v'') (Seq (Opt (Chr CHR ''.'')) (Seq Spaces
     (Seq (Opt (Alt (Seq (Chr CHR ''t'') (Opt (Chr CHR ''.'')))
                    (Seq (Chr CHR ''i'') (Opt (Chr CHR ''.''))))) WordB))))"

section \<open>Numbers\<close>

text \<open>
  \<^verbatim>\<open>int(s)\<close> and \<^verbatim>\<open>float(s)\<close> raise \<^verbatim>\<open>ValueError\<close> on text that is not a number:
  the result \<open>None\<close>. Both strip white space first, from a set smaller than that of
  \<^verbatim>\<open>str.strip\<close>: the code points 28 to 31 are not stripped.
\<close>

definition isspace_num :: "char \<Rightarrow> bool" where
  "isspace_num c = (let n = code_point c in (9 \<le> n \<and> n \<le> 13) \<or> n = 32 \<or> n = 133 \<or> n = 160)"

definition strip_num :: "string \<Rightarrow> string" where
  "strip_num s = rev (dropWhile isspace_num (rev (dropWhile isspace_num s)))"

definition digits_value :: "string \<Rightarrow> int" where
  "digits_value ds = foldl (\<lambda>a c. 10 * a + int (digit_val c)) 0 ds"

text \<open>An optional sign: the sign read (\<open>True\<close> for minus) and the rest.\<close>

fun take_sign :: "string \<Rightarrow> bool \<times> string" where
  "take_sign [] = (False, [])"
| "take_sign (c # cs) =
     (if c = CHR ''-'' then (True, cs) else if c = CHR ''+'' then (False, cs) else (False, c # cs))"

text \<open>Underscores are allowed between two digits only. \<open>drop_underscores prev s\<close> removes
  them, \<open>prev\<close> being the character before \<open>s\<close>, and fails on a misplaced one.\<close>

fun drop_underscores :: "char option \<Rightarrow> string \<Rightarrow> string option" where
  "drop_underscores prev [] = (if prev = Some CHR ''_'' then None else Some [])"
| "drop_underscores prev (c # cs) =
     (if c = CHR ''_''
      then (case prev of
              None \<Rightarrow> None
            | Some p \<Rightarrow> if isdigit_char p then drop_underscores (Some c) cs else None)
      else if prev = Some CHR ''_'' \<and> \<not> isdigit_char c then None
      else map_option (Cons c) (drop_underscores (Some c) cs))"

text \<open>\<^verbatim>\<open>int(s)\<close>, base ten: white space, an optional sign, digits with single underscores
  between them, white space. The interpreter's limit on the number of digits of a
  converted string (4300 by default) is not modelled.\<close>

definition py_int :: "string \<Rightarrow> int option" where
  "py_int s0 =
     (let (neg, s) = take_sign (strip_num s0) in
      if s = [] \<or> \<not> isdigit_char (hd s) then None
      else case drop_underscores None s of
             None \<Rightarrow> None
           | Some ds \<Rightarrow>
               if list_all isdigit_char ds
               then Some (if neg then - digits_value ds else digits_value ds)
               else None)"

text \<open>A Python \<^verbatim>\<open>float\<close>: a binary64 value, held as the rational it denotes, an
  infinity or a NaN. The two zeros are not told apart (they compare equal).\<close>

datatype pyfloat = NaN | NInf | Fin rat | PInf

text \<open>The comparisons of floats: every comparison with a NaN is false.\<close>

instantiation pyfloat :: ord
begin

fun less_pyfloat :: "pyfloat \<Rightarrow> pyfloat \<Rightarrow> bool" where
  "less_pyfloat NaN y = False"
| "less_pyfloat x NaN = False"
| "less_pyfloat x NInf = False"
| "less_pyfloat NInf y = True"
| "less_pyfloat PInf y = False"
| "less_pyfloat (Fin a) PInf = True"
| "less_pyfloat (Fin a) (Fin b) = (a < b)"

definition less_eq_pyfloat :: "pyfloat \<Rightarrow> pyfloat \<Rightarrow> bool" where
  "less_eq_pyfloat x y = (x < y \<or> (x = y \<and> x \<noteq> NaN))"

instance ..

end

text \<open>Rounding a rational to the nearest binary64 value, ties to the even mantissa:
  53 bits of mantissa, the least exponent -1022 (below it the spacing stays
  \<open>2 ^ -1074\<close>), and an infinity when the rounded value reaches \<open>2 ^ 1024\<close>: when
  the exponent is 1024 or more, or is 1023 and the mantissa rounds up to \<open>2 ^ 53\<close>.\<close>

function bit_length :: "int \<Rightarrow> int" where
  "bit_length n = (if n \<le> 0 then 0 else 1 + bit_length (n div 2))"
  by pat_completeness auto
termination
  by (relation "measure nat") auto

definition pow2 :: "int \<Rightarrow> rat" where
  "pow2 k = (if 0 \<le> k then 2 ^ nat k else 1 / 2 ^ nat (- k))"

definition pow10 :: "int \<Rightarrow> rat" where
  "pow10 k = (if 0 \<le> k then 10 ^ nat k else 1 / 10 ^ nat (- k))"

text \<open>The exponent \<open>e\<close> with \<open>2 ^ e \<le> a < 2 ^ (e + 1)\<close>, for \<open>a > 0\<close>.\<close>

definition floor_log2 :: "rat \<Rightarrow> int" where
  "floor_log2 a =
     (let (n, d) = quotient_of a;
          k = bit_length n - bit_length d
      in if pow2 k \<le> a then k else k - 1)"

definition round_half_even :: "rat \<Rightarrow> int" where
  "round_half_even q =
     (let f = \<lfloor>q\<rfloor>; r = q - of_int f
      in if r < 1 / 2 then f else if 1 / 2 < r then f + 1 else if even f then f else f + 1)"

definition to_double :: "rat \<Rightarrow> pyfloat" where
  "to_double q =
     (if q = 0 then Fin 0
      else let a = \<bar>q\<bar>;
               e = max (floor_log2 a) (- 1022);
               m = round_half_even (a / pow2 (e - 52))
           in if 1024 \<le> e \<or> (e = 1023 \<and> 9007199254740992 \<le> m)
              then (if 0 < q then PInf else NInf)
              else Fin ((if 0 < q then 1 else - 1) * of_int m * pow2 (e - 52)))"

text \<open>The decimal syntax, after the sign: digits, an optional point and digits (a digit
  on one side of the point at least), an optional exponent \<^verbatim>\<open>e\<close> or \<^verbatim>\<open>E\<close> with an
  optional sign and one digit at least. The result is the exact value.\<close>

definition parse_decimal :: "string \<Rightarrow> rat option" where
  "parse_decimal s =
     (let ip = takeWhile isdigit_char s; r1 = dropWhile isdigit_char s;
          fp = (if r1 \<noteq> [] \<and> hd r1 = CHR ''.'' then takeWhile isdigit_char (tl r1) else []);
          r2 = (if r1 \<noteq> [] \<and> hd r1 = CHR ''.'' then dropWhile isdigit_char (tl r1) else r1);
          m = of_int (digits_value (ip @ fp))
      in if ip = [] \<and> fp = [] then None
         else if r2 = [] then Some (m * pow10 (- int (length fp)))
         else if hd r2 = CHR ''e'' \<or> hd r2 = CHR ''E''
         then (let (neg, r3) = take_sign (tl r2)
               in if r3 = [] \<or> \<not> list_all isdigit_char r3 then None
                  else Some (m * pow10 ((if neg then - digits_value r3 else digits_value r3)
                                        - int (length fp))))
         else None)"

text \<open>\<^verbatim>\<open>float(s)\<close>: white space, an optional sign, then a decimal number, or
  \<^verbatim>\<open>inf\<close>, \<^verbatim>\<open>infinity\<close> or \<^verbatim>\<open>nan\<close> in any case. Underscores are checked and removed
  first, over the whole text.\<close>

definition float_inner :: "string \<Rightarrow> pyfloat option" where
  "float_inner s =
     (let (neg, r) = take_sign s; w = lower r
      in if w = ''inf'' \<or> w = ''infinity'' then Some (if neg then NInf else PInf)
         else if w = ''nan'' then Some NaN
         else map_option (\<lambda>q. to_double (if neg then - q else q)) (parse_decimal r))"

definition py_float :: "string \<Rightarrow> pyfloat option" where
  "py_float s0 =
     (let s = strip_num s0
      in if CHR ''_'' \<in> set s
         then (case drop_underscores None s of None \<Rightarrow> None | Some t \<Rightarrow> float_inner t)
         else float_inner s)"

section \<open>\<^verbatim>\<open>normalize_pos\<close>\<close>

text \<open>The eight tests, on the stripped and lower-cased text, in the order of the source.\<close>

definition noun_marker :: "string \<Rightarrow> bool" where
  "noun_marker pos_str = (search (abbrev ''n'') pos_str \<or> contains ''noun'' pos_str)"

definition verb_marker :: "string \<Rightarrow> bool" where
  "verb_marker pos_str = (search re_verb pos_str \<or> contains ''verb'' pos_str)"

definition adjective_marker :: "string \<Rightarrow> bool" where
  "adjective_marker pos_str =
     (search (abbrev ''a'') pos_str \<or> search (abbrev ''adj'') pos_str
      \<or> contains ''adjective'' pos_str)"

definition adverb_marker :: "string \<Rightarrow> bool" where
  "adverb_marker pos_str = (search (abbrev ''adv'') pos_str \<or> contains ''adverb'' pos_str)"

definition preposition_marker :: "string \<Rightarrow> bool" where
  "preposition_marker pos_str =
     (search (abbrev ''prep'') pos_str \<or> contains ''preposition'' pos_str)"

definition conjunction_marker :: "string \<Rightarrow> bool" where
  "conjunction_marker pos_str =
     (search (abbrev ''conj'') pos_str \<or> contains ''conjunction'' pos_str)"

definition pronoun_marker :: "string \<Rightarrow> bool" where
  "pronoun_marker pos_str = (search (abbrev ''pron'') pos_str \<or> contains ''pronoun'' pos_str)"

definition determiner_marker :: "string \<Rightarrow> bool" where
  "determiner_marker pos_str =
     (contains ''def. art.'' pos_str \<or> contains ''definite article'' pos_str
      \<or> contains ''det.'' pos_str)"

definition normalize_pos :: "string \<Rightarrow> string set" where
  "normalize_pos pos_str0 =
     (if pos_str0 = [] then {}
      else let pos_str = lower (strip pos_str0) in
        (if noun_marker pos_str then {''N''} else {}) \<union>
        (if verb_marker pos_str then {''V''} else {}) \<union>
        (if adjective_marker pos_str then {''Adj''} else {}) \<union>
        (if adverb_marker pos_str then {''Adv''} else {}) \<union>
        (if preposition_marker pos_str then {''Prep''} else {}) \<union>
        (if conjunction_marker pos_str then {''Conj''} else {}) \<union>
        (if pronoun_marker pos_str then {''Pron''} else {}) \<union>
        (if determiner_marker pos_str then {''Det''} else {}))"

section \<open>Word data\<close>

text \<open>
  The adapters build a \<^verbatim>\<open>dict\<close> from words to \<^verbatim>\<open>{'freq': ..., 'pos': set}\<close>. A
  \<^verbatim>\<open>dict\<close> keeps its keys in insertion order, and the final stable sort makes that order
  visible, so the dictionary is an association list with distinct keys: a new key goes to
  the end (\<^const>\<open>AList.update\<close> on an absent key), a known key is updated in place.
  Frequencies are \<^verbatim>\<open>int\<close> in the ngram adapter and \<^verbatim>\<open>float\<close> in the other two.
\<close>

record 'f entry =
  freq :: 'f
  pos :: "string set"

type_synonym 'f word_data = "(string \<times> 'f entry) list"

text \<open>A file is the list of the lines that iterating over it yields, or \<open>None\<close> when
  there is no file at the path.\<close>

type_synonym text_file = "string list option"

text \<open>The filter \<^verbatim>\<open>word and len(word) <= 6 and word.isalpha()\<close>.\<close>

definition keep_word :: "string \<Rightarrow> bool" where
  "keep_word word = (word \<noteq> [] \<and> length word \<le> 6 \<and> isalpha word)"

section \<open>The ngram adapter\<close>

definition parse_ngram_line :: "string \<Rightarrow> string option \<times> int \<times> string set" where
  "parse_ngram_line line =
     (let parts = split (CHR 0x09) (strip line)
      in if 3 \<le> length parts
         then (let word0 = lower (parts ! 0);
                   word = (if CHR ''_'' \<in> set word0 then fst (split1 CHR ''_'' word0) else word0);
                   pos_tags = (if CHR ''_'' \<in> set word0
                               then normalize_pos (snd (split1 CHR ''_'' word0)) else {})
               in case py_int (parts ! 2) of
                    Some match_count \<Rightarrow> (Some word, match_count, pos_tags)
                  | None \<Rightarrow> (None, 0, {}))
         else (None, 0, {}))"

text \<open>\<^verbatim>\<open>word_data[word]['freq'] += freq; word_data[word]['pos'].update(pos_tags)\<close> on a
  \<^verbatim>\<open>defaultdict\<close> whose default is \<^verbatim>\<open>{'freq': 0, 'pos': set()}\<close>.\<close>

definition add_count :: "string \<Rightarrow> int \<Rightarrow> string set \<Rightarrow> int word_data \<Rightarrow> int word_data" where
  "add_count word n pos_tags word_data =
     (let e = (case map_of word_data word of None \<Rightarrow> \<lparr>freq = 0, pos = {}\<rparr> | Some e \<Rightarrow> e)
      in AList.update word \<lparr>freq = freq e + n, pos = pos e \<union> pos_tags\<rparr> word_data)"

definition ngram_line :: "int word_data \<Rightarrow> string \<Rightarrow> int word_data" where
  "ngram_line word_data line =
     (case parse_ngram_line line of
        (Some word, n, pos_tags) \<Rightarrow>
          if keep_word word then add_count word n pos_tags word_data else word_data
      | (None, n, pos_tags) \<Rightarrow> word_data)"

definition process_ngram_file :: "string list \<Rightarrow> int word_data" where
  "process_ngram_file lines = foldl ngram_line [] lines"

section \<open>The lemma-frequency adapter\<close>

fun first_float :: "string list \<Rightarrow> pyfloat option" where
  "first_float [] = None"
| "first_float (part # parts) =
     (case py_float (strip part) of Some f \<Rightarrow> Some f | None \<Rightarrow> first_float parts)"

text \<open>One round of the loop over the separators: \<open>None\<close> when the loop goes on to the
  next separator.\<close>

definition try_separator :: "char \<Rightarrow> string \<Rightarrow> (string \<times> pyfloat \<times> string set) option" where
  "try_separator sep line =
     (if sep \<in> set line
      then (let parts = split sep (strip line)
            in if 4 \<le> length parts
               then (case py_int (parts ! 0) of
                       None \<Rightarrow> None
                     | Some rank \<Rightarrow>
                         (let word0 = lower (strip (parts ! 1));
                              pos_str0 = strip (parts ! 2);
                              word = (if CHR ''_'' \<in> set word0
                                      then fst (split1 CHR ''_'' word0) else word0);
                              pos_str = (if CHR ''_'' \<in> set word0 \<and> pos_str0 = []
                                         then snd (split1 CHR ''_'' word0) else pos_str0)
                          in case first_float (drop 3 parts) of
                               None \<Rightarrow> None
                             | Some f \<Rightarrow>
                                 if word \<noteq> [] then Some (word, f, normalize_pos pos_str)
                                 else None))
               else None)
      else None)"

definition parse_wordfrequency_line ::
  "string \<Rightarrow> string option \<times> pyfloat option \<times> string set" where
  "parse_wordfrequency_line line =
     (case try_separator (CHR 0x09) line of
        Some (word, f, pos_tags) \<Rightarrow> (Some word, Some f, pos_tags)
      | None \<Rightarrow>
     (case try_separator CHR ''|'' line of
        Some (word, f, pos_tags) \<Rightarrow> (Some word, Some f, pos_tags)
      | None \<Rightarrow>
     (case try_separator CHR '','' line of
        Some (word, f, pos_tags) \<Rightarrow> (Some word, Some f, pos_tags)
      | None \<Rightarrow> (None, None, {}))))"

text \<open>The body of the loop below the header test.\<close>

definition wordfreq_line :: "pyfloat word_data \<Rightarrow> string \<Rightarrow> pyfloat word_data" where
  "wordfreq_line word_data line =
     (case parse_wordfrequency_line line of
        (Some word, Some f, pos_tags) \<Rightarrow>
          if keep_word word
          then (case map_of word_data word of
                  None \<Rightarrow> AList.update word \<lparr>freq = f, pos = pos_tags\<rparr> word_data
                | Some e \<Rightarrow>
                    AList.update word
                      \<lparr>freq = (if f > freq e then f else freq e), pos = pos e \<union> pos_tags\<rparr>
                      word_data)
          else word_data
      | (Some word, None, pos_tags) \<Rightarrow> word_data
      | (None, f, pos_tags) \<Rightarrow> word_data)"

fun wordfreq_loop :: "bool \<Rightarrow> nat \<Rightarrow> string list \<Rightarrow> pyfloat word_data \<Rightarrow> pyfloat word_data" where
  "wordfreq_loop header_skipped line_num [] word_data = word_data"
| "wordfreq_loop header_skipped line_num (line # rest) word_data =
     (if \<not> header_skipped \<and>
         (contains ''rank'' (lower line) \<or> contains ''lemma'' (lower line) \<or> line_num < 2)
      then wordfreq_loop True (Suc line_num) rest word_data
      else wordfreq_loop header_skipped (Suc line_num) rest (wordfreq_line word_data line))"

definition get_top_words_from_wordfrequency :: "text_file \<Rightarrow> int \<Rightarrow> pyfloat word_data" where
  "get_top_words_from_wordfrequency f top_n =
     (case f of None \<Rightarrow> [] | Some lines \<Rightarrow> wordfreq_loop False 0 lines [])"

section \<open>The CSV adapter\<close>

text \<open>The fields of a line: the word and the frequency, or \<open>None\<close> when the line has
  fewer than two fields or \<^verbatim>\<open>float\<close> raises \<^verbatim>\<open>ValueError\<close>.\<close>

definition parse_csv_line :: "string \<Rightarrow> (string \<times> pyfloat) option" where
  "parse_csv_line line =
     (let parts = split CHR '','' (strip line)
      in if 2 \<le> length parts
         then (let word = lower (strip (parts ! 0))
               in case py_float (strip (parts ! 1)) of
                    None \<Rightarrow> None
                  | Some f \<Rightarrow> Some (word, f))
         else None)"

definition csv_line :: "pyfloat word_data \<Rightarrow> string \<Rightarrow> pyfloat word_data" where
  "csv_line word_data line =
     (case parse_csv_line line of
        None \<Rightarrow> word_data
      | Some (word, f) \<Rightarrow>
          if keep_word word
          then (case map_of word_data word of
                  None \<Rightarrow> AList.update word \<lparr>freq = f, pos = {}\<rparr> word_data
                | Some e \<Rightarrow>
                    if f > freq e then AList.update word (e\<lparr>freq := f\<rparr>) word_data
                    else word_data)
          else word_data)"

definition csv_header :: "string \<Rightarrow> bool" where
  "csv_header line = (contains ''word'' (lower line) \<or> contains ''freq'' (lower line))"

fun csv_loop :: "bool \<Rightarrow> string list \<Rightarrow> pyfloat word_data \<Rightarrow> pyfloat word_data" where
  "csv_loop header_skipped [] word_data = word_data"
| "csv_loop header_skipped (line # rest) word_data =
     (if \<not> header_skipped \<and> csv_header line
      then csv_loop True rest word_data
      else csv_loop header_skipped rest (csv_line word_data line))"

definition get_top_words_from_csv :: "text_file \<Rightarrow> int \<Rightarrow> pyfloat word_data" where
  "get_top_words_from_csv f top_n =
     (case f of None \<Rightarrow> [] | Some lines \<Rightarrow> csv_loop False lines [])"

section \<open>The main program\<close>

text \<open>
  The command line: \<^verbatim>\<open>--ngram\<close> with the files named, \<^verbatim>\<open>--download-coca\<close> with the
  lines the download delivers (\<open>None\<close> when it fails), \<^verbatim>\<open>--wordfreq\<close> and \<^verbatim>\<open>--csv\<close>
  with the file named (the outer \<open>None\<close> when the option is absent). Paths are not empty
  strings. A run ends in \<^verbatim>\<open>sys.exit(1)\<close> before the output is opened, or writes
  lines.
\<close>

record args =
  top_n :: int
  ngram :: "text_file list option"
  download_coca :: bool
  coca_download :: "string list option"
  wordfreq :: "text_file option"
  csv :: "text_file option"

datatype exit = No_ngram_words | Download_failed | No_source | No_words

text \<open>The merge of the ngram files in the main program: a missing file is skipped.\<close>

definition merge_entry :: "int word_data \<Rightarrow> string \<times> int entry \<Rightarrow> int word_data" where
  "merge_entry all_word_data wd =
     (let e = (case map_of all_word_data (fst wd) of
                 None \<Rightarrow> \<lparr>freq = 0, pos = {}\<rparr> | Some e \<Rightarrow> e)
      in AList.update (fst wd)
           \<lparr>freq = freq e + freq (snd wd), pos = pos e \<union> pos (snd wd)\<rparr> all_word_data)"

fun merge_ngram_files :: "text_file list \<Rightarrow> int word_data \<Rightarrow> int word_data" where
  "merge_ngram_files [] all_word_data = all_word_data"
| "merge_ngram_files (None # files) all_word_data = merge_ngram_files files all_word_data"
| "merge_ngram_files (Some lines # files) all_word_data =
     merge_ngram_files files (foldl merge_entry all_word_data (process_ngram_file lines))"

text \<open>
  \<^verbatim>\<open>sorted(items, key=..., reverse=True)\<close>: a stable sort into descending order that
  compares keys with \<^verbatim>\<open><\<close> only. Where \<^verbatim>\<open><\<close> orders the keys totally (no NaN among
  them) the result of every such sort is the one computed here, by insertion from the
  right. With a NaN key the result of CPython's sort depends on its merge strategy, which
  is not modelled.
\<close>

fun insert_desc :: "('a \<Rightarrow> 'k::ord) \<Rightarrow> 'a \<Rightarrow> 'a list \<Rightarrow> 'a list" where
  "insert_desc key x [] = [x]"
| "insert_desc key x (y # ys) =
     (if key x < key y then y # insert_desc key x ys else x # y # ys)"

definition sorted_desc :: "('a \<Rightarrow> 'k::ord) \<Rightarrow> 'a list \<Rightarrow> 'a list" where
  "sorted_desc key xs = foldr (insert_desc key) xs []"

text \<open>The slice \<^verbatim>\<open>xs[:n]\<close>: a negative \<open>n\<close> counts from the end.\<close>

definition slice_to :: "int \<Rightarrow> 'a list \<Rightarrow> 'a list" where
  "slice_to n xs = (if 0 \<le> n then take (nat n) xs else take (length xs - nat (- n)) xs)"

definition survivors :: "'f word_data \<Rightarrow> 'f word_data" where
  "survivors word_data = filter (\<lambda>x. length (fst x) \<le> 6 \<and> isalpha (fst x)) word_data"

definition sorted_words :: "int \<Rightarrow> ('f::ord) word_data \<Rightarrow> ('f::ord) word_data" where
  "sorted_words n word_data =
     slice_to n (sorted_desc (\<lambda>x. freq (snd x)) (survivors word_data))"

fun join :: "string \<Rightarrow> string list \<Rightarrow> string" where
  "join sep [] = []"
| "join sep [x] = x"
| "join sep (x # y # ys) = x @ sep @ join sep (y # ys)"

definition output_line :: "string \<times> 'f entry \<Rightarrow> string" where
  "output_line x =
     (let pos_tags = sorted_list_of_set (pos (snd x))
      in if pos_tags \<noteq> [] then fst x @ ''|'' @ join '','' pos_tags @ [CHR 0x0A]
         else fst x @ [CHR 0x0A])"

text \<open>The choice of the source, up to the test \<^verbatim>\<open>if not word_data\<close>: the word data,
  with \<^verbatim>\<open>int\<close> frequencies from the ngram files and \<^verbatim>\<open>float\<close> frequencies from the
  other sources.\<close>

definition collect :: "args \<Rightarrow> exit + (int word_data + pyfloat word_data)" where
  "collect a =
     (if ngram a \<noteq> None \<and> ngram a \<noteq> Some []
      then (case ngram a of
              None \<Rightarrow> Inl No_source
            | Some files \<Rightarrow>
                (let word_data = merge_ngram_files files []
                 in if word_data = [] then Inl No_ngram_words else Inr (Inl word_data)))
      else if download_coca a
      then (case coca_download a of
              Some lines \<Rightarrow>
                Inr (Inr (get_top_words_from_wordfrequency (Some lines) (top_n a * 2)))
            | None \<Rightarrow> Inl Download_failed)
      else case wordfreq a of
             Some f \<Rightarrow> Inr (Inr (get_top_words_from_wordfrequency f (top_n a)))
           | None \<Rightarrow>
               (case csv a of
                  Some f \<Rightarrow> Inr (Inr (get_top_words_from_csv f (top_n a)))
                | None \<Rightarrow> Inl No_source))"

text \<open>From the test \<^verbatim>\<open>if not word_data\<close> to the last write.\<close>

definition finish :: "int \<Rightarrow> ('f::ord) word_data \<Rightarrow> exit + string list" where
  "finish n word_data =
     (if word_data = [] then Inl No_words
      else Inr (map output_line (sorted_words n word_data)))"

definition main :: "args \<Rightarrow> exit + string list" where
  "main a =
     (case collect a of
        Inl e \<Rightarrow> Inl e
      | Inr (Inl word_data) \<Rightarrow> finish (top_n a) word_data
      | Inr (Inr word_data) \<Rightarrow> finish (top_n a) word_data)"

section \<open>Observations used in the statements\<close>

text \<open>The frequency and the tags recorded for a word, zero and none for an absent word.\<close>

definition frequency_of :: "int word_data \<Rightarrow> string \<Rightarrow> int" where
  "frequency_of word_data w = (case map_of word_data w of None \<Rightarrow> 0 | Some e \<Rightarrow> freq e)"

definition tags_of :: "'f word_data \<Rightarrow> string \<Rightarrow> string set" where
  "tags_of word_data w = (case map_of word_data w of None \<Rightarrow> {} | Some e \<Rightarrow> pos e)"

text \<open>What one line of an ngram file contributes to the word \<open>w\<close>: the match count and
  the tags of a line that parses to \<open>w\<close> and passes the filter, nothing otherwise.\<close>

definition line_count :: "string \<Rightarrow> string \<Rightarrow> int" where
  "line_count w line =
     (case parse_ngram_line line of
        (Some word, n, pos_tags) \<Rightarrow> if word = w \<and> keep_word word then n else 0
      | (None, n, pos_tags) \<Rightarrow> 0)"

definition line_tags :: "string \<Rightarrow> string \<Rightarrow> string set" where
  "line_tags w line =
     (case parse_ngram_line line of
        (Some word, n, pos_tags) \<Rightarrow> if word = w \<and> keep_word word then pos_tags else {}
      | (None, n, pos_tags) \<Rightarrow> {})"

text \<open>A line of an ngram file as the iteration yields it: the fields joined by tabs,
  and the line feed.\<close>

definition tsv :: "string list \<Rightarrow> string" where
  "tsv cells = join [CHR 0x09] cells @ [CHR 0x0A]"

text \<open>
  The header rule of the lemma-frequency adapter in the words of the specification: the
  first two lines are headers, and so is every later line that contains \<^verbatim>\<open>rank\<close> or
  \<^verbatim>\<open>lemma\<close>; the other lines are parsed as data.
\<close>

definition claimed_wordfrequency :: "string list \<Rightarrow> pyfloat word_data" where
  "claimed_wordfrequency lines =
     foldl wordfreq_line []
       (filter (\<lambda>line. \<not> (contains ''rank'' (lower line) \<or> contains ''lemma'' (lower line)))
          (drop 2 lines))"



text \<open>The keys of a dictionary all pass the filter and are in lower case.\<close>

definition well_keyed :: "'f word_data \<Rightarrow> bool" where
  "well_keyed word_data = (\<forall>w\<in>fst ` set word_data. keep_word w \<and> lower w = w)"

section \<open>Properties of \<^verbatim>\<open>normalize_pos\<close>\<close>

lemma normalize_pos_subset:
  "normalize_pos s \<subseteq> {''N'', ''V'', ''Adj'', ''Adv'', ''Prep'', ''Conj'', ''Pron'', ''Det''}"
  by (auto simp add: normalize_pos_def Let_def split: if_splits)

lemma normalize_pos_empty_iff:
  "normalize_pos s = {} \<longleftrightarrow>
     s = [] \<or> \<not> (noun_marker (lower (strip s)) \<or> verb_marker (lower (strip s))
       \<or> adjective_marker (lower (strip s)) \<or> adverb_marker (lower (strip s))
       \<or> preposition_marker (lower (strip s)) \<or> conjunction_marker (lower (strip s))
       \<or> pronoun_marker (lower (strip s)) \<or> determiner_marker (lower (strip s)))"
  unfolding normalize_pos_def Let_def Un_empty by (cases "s = []") simp_all

lemma normalize_pos_n_v: "normalize_pos ''n., v.'' = {''N'', ''V''}"
  by code_simp

lemma normalize_pos_adj: "normalize_pos ''adj.'' = {''Adj''}"
  by code_simp

lemma normalize_pos_xyz: "normalize_pos ''xyz.'' = {}"
  by code_simp

text \<open>
  Claim C5. \<^verbatim>\<open>normalize_pos\<close> is a total function (it has no failing branch); for every
  text its result is a subset of the eight tags \<open>N\<close>, \<open>V\<close>, \<open>Adj\<close>, \<open>Adv\<close>, \<open>Prep\<close>,
  \<open>Conj\<close>, \<open>Pron\<close>, \<open>Det\<close>; the result is empty exactly when the text is empty or none
  of the eight tests matches it; and \<^verbatim>\<open>"n., v."\<close> gives \<open>{N, V}\<close>, \<^verbatim>\<open>"adj."\<close> gives
  \<open>{Adj}\<close>, \<^verbatim>\<open>"xyz."\<close> gives the empty set.
\<close>

theorem normalize_pos_vocabulary:
  "normalize_pos s \<subseteq> {''N'', ''V'', ''Adj'', ''Adv'', ''Prep'', ''Conj'', ''Pron'', ''Det''}
   \<and> (normalize_pos s = {} \<longleftrightarrow>
        s = [] \<or> \<not> (noun_marker (lower (strip s)) \<or> verb_marker (lower (strip s))
          \<or> adjective_marker (lower (strip s)) \<or> adverb_marker (lower (strip s))
          \<or> preposition_marker (lower (strip s)) \<or> conjunction_marker (lower (strip s))
          \<or> pronoun_marker (lower (strip s)) \<or> determiner_marker (lower (strip s))))
   \<and> normalize_pos ''n., v.'' = {''N'', ''V''}
   \<and> normalize_pos ''adj.'' = {''Adj''}
   \<and> normalize_pos ''xyz.'' = {}"
  using normalize_pos_subset [of s] normalize_pos_empty_iff [of s]
    normalize_pos_n_v normalize_pos_adj normalize_pos_xyz
  by blast

theorem normalize_pos_vocabulary_witness:
  "normalize_pos ''xyz.'' = {} \<and> \<not> noun_marker (lower (strip ''xyz.''))"
proof -
  have "''xyz.'' \<noteq> []" by simp
  with normalize_pos_vocabulary [of "''xyz.''"] show ?thesis by blast
qed

section \<open>The ngram merge\<close>

lemma frequency_of_update:
  "frequency_of (AList.update k e d) w = (if w = k then freq e else frequency_of d w)"
  by (simp add: frequency_of_def update_conv')

lemma tags_of_update:
  "tags_of (AList.update k e d) w = (if w = k then pos e else tags_of d w)"
  by (simp add: tags_of_def update_conv')

lemma frequency_of_add_count:
  "frequency_of (add_count word n p d) w = frequency_of d w + (if w = word then n else 0)"
  by (simp add: add_count_def Let_def frequency_of_update) (simp add: frequency_of_def split: option.splits)

lemma tags_of_add_count:
  "tags_of (add_count word n p d) w = tags_of d w \<union> (if w = word then p else {})"
  by (simp add: add_count_def Let_def tags_of_update) (simp add: tags_of_def split: option.splits)

lemma frequency_of_ngram_line:
  "frequency_of (ngram_line d line) w = frequency_of d w + line_count w line"
  by (auto simp add: ngram_line_def line_count_def frequency_of_add_count split: prod.splits option.splits)

lemma tags_of_ngram_line:
  "tags_of (ngram_line d line) w = tags_of d w \<union> line_tags w line"
  by (auto simp add: ngram_line_def line_tags_def tags_of_add_count split: prod.splits option.splits)

lemma frequency_of_foldl_ngram_line:
  "frequency_of (foldl ngram_line d lines) w = frequency_of d w + (\<Sum>line\<leftarrow>lines. line_count w line)"
  by (induction lines arbitrary: d) (simp_all add: frequency_of_ngram_line)

lemma tags_of_foldl_ngram_line:
  "tags_of (foldl ngram_line d lines) w = tags_of d w \<union> (\<Union>line\<in>set lines. line_tags w line)"
  by (induction lines arbitrary: d) (auto simp add: tags_of_ngram_line)

lemma distinct_add_count: "distinct (map fst d) \<Longrightarrow> distinct (map fst (add_count word n p d))"
  by (simp add: add_count_def Let_def distinct_update)

lemma distinct_ngram_line: "distinct (map fst d) \<Longrightarrow> distinct (map fst (ngram_line d line))"
  by (auto simp add: ngram_line_def distinct_add_count split: prod.splits option.splits)

lemma distinct_foldl_ngram_line:
  "distinct (map fst d) \<Longrightarrow> distinct (map fst (foldl ngram_line d lines))"
  by (induction lines arbitrary: d) (simp_all add: distinct_ngram_line)

lemma distinct_process_ngram_file: "distinct (map fst (process_ngram_file lines))"
  by (simp add: process_ngram_file_def distinct_foldl_ngram_line)

lemma frequency_of_merge_entry:
  "frequency_of (merge_entry d x) w = frequency_of d w + (if w = fst x then freq (snd x) else 0)"
  by (simp add: merge_entry_def Let_def frequency_of_update) (simp add: frequency_of_def split: option.splits)

lemma tags_of_merge_entry:
  "tags_of (merge_entry d x) w = tags_of d w \<union> (if w = fst x then pos (snd x) else {})"
  by (simp add: merge_entry_def Let_def tags_of_update) (simp add: tags_of_def split: option.splits)

lemma frequency_of_Cons:
  "frequency_of (x # xs) w = (if w = fst x then freq (snd x) else frequency_of xs w)"
  by (cases x) (simp add: frequency_of_def)

lemma tags_of_Cons:
  "tags_of (x # xs) w = (if w = fst x then pos (snd x) else tags_of xs w)"
  by (cases x) (simp add: tags_of_def)

lemma frequency_of_absent: "w \<notin> fst ` set xs \<Longrightarrow> frequency_of xs w = 0"
proof -
  assume "w \<notin> fst ` set xs"
  then have "map_of xs w = None" by (simp add: map_of_eq_None_iff)
  then show ?thesis by (simp add: frequency_of_def)
qed

lemma tags_of_absent: "w \<notin> fst ` set xs \<Longrightarrow> tags_of xs w = {}"
proof -
  assume "w \<notin> fst ` set xs"
  then have "map_of xs w = None" by (simp add: map_of_eq_None_iff)
  then show ?thesis by (simp add: tags_of_def)
qed

lemma frequency_of_foldl_merge_entry:
  "distinct (map fst xs) \<Longrightarrow>
   frequency_of (foldl merge_entry d xs) w = frequency_of d w + frequency_of xs w"
proof (induction xs arbitrary: d)
  case Nil
  then show ?case by (simp add: frequency_of_absent)
next
  case (Cons x xs)
  then have absent: "w = fst x \<Longrightarrow> frequency_of xs w = 0"
    by (simp add: frequency_of_absent)
  from Cons have "frequency_of (foldl merge_entry (merge_entry d x) xs) w =
      frequency_of (merge_entry d x) w + frequency_of xs w"
    by simp
  with absent show ?case
    by (simp add: frequency_of_merge_entry frequency_of_Cons)
qed

lemma tags_of_foldl_merge_entry:
  "distinct (map fst xs) \<Longrightarrow>
   tags_of (foldl merge_entry d xs) w = tags_of d w \<union> tags_of xs w"
proof (induction xs arbitrary: d)
  case Nil
  then show ?case by (simp add: tags_of_absent)
next
  case (Cons x xs)
  then have absent: "w = fst x \<Longrightarrow> tags_of xs w = {}"
    by (simp add: tags_of_absent)
  from Cons have "tags_of (foldl merge_entry (merge_entry d x) xs) w =
      tags_of (merge_entry d x) w \<union> tags_of xs w"
    by simp
  with absent show ?case
    by (simp add: tags_of_merge_entry tags_of_Cons Un_assoc)
qed

lemma frequency_of_merge_ngram_files:
  "frequency_of (merge_ngram_files files d) w =
   frequency_of d w + (\<Sum>f\<leftarrow>files. case f of None \<Rightarrow> 0
                        | Some lines \<Rightarrow> frequency_of (process_ngram_file lines) w)"
proof (induction files arbitrary: d)
  case Nil
  then show ?case by simp
next
  case (Cons f files)
  then show ?case
    by (cases f) (simp_all add: frequency_of_foldl_merge_entry distinct_process_ngram_file)
qed

lemma tags_of_merge_ngram_files:
  "tags_of (merge_ngram_files files d) w =
   tags_of d w \<union> (\<Union>f\<in>set files. case f of None \<Rightarrow> {}
                        | Some lines \<Rightarrow> tags_of (process_ngram_file lines) w)"
proof (induction files arbitrary: d)
  case Nil
  then show ?case by simp
next
  case (Cons f files)
  then show ?case
    by (cases f) (auto simp add: tags_of_foldl_merge_entry distinct_process_ngram_file)
qed

lemma line_count_the_2000: "line_count ''the'' (tsv [''the'', ''2000'', ''100'', ''9'', ''3'']) = 100"
  by code_simp

lemma line_count_the_2001: "line_count ''the'' (tsv [''the'', ''2001'', ''50'', ''7'', ''2'']) = 50"
  by code_simp

text \<open>
  Claim C1. The ngram merge is additive at every level. Within one file the frequency
  recorded for a word is the sum of the match counts of all the lines that parse to that
  bare word and pass the filter, and its tags are the union of their tags. Across the
  files given on the command line (missing files skipped) the frequency is the sum of the
  per-file totals and the tags are the union of the per-file tags. The word \<^verbatim>\<open>the\<close>
  with match count 100 in 2000 and 50 in 2001 has frequency 150 in one file, and 300
  after merging two such files.
\<close>

theorem ngram_merge_additive:
  "frequency_of (process_ngram_file lines) w = (\<Sum>line\<leftarrow>lines. line_count w line)
   \<and> tags_of (process_ngram_file lines) w = (\<Union>line\<in>set lines. line_tags w line)
   \<and> frequency_of (merge_ngram_files files []) w =
       (\<Sum>f\<leftarrow>files. case f of None \<Rightarrow> 0
           | Some lines \<Rightarrow> frequency_of (process_ngram_file lines) w)
   \<and> tags_of (merge_ngram_files files []) w =
       (\<Union>f\<in>set files. case f of None \<Rightarrow> {}
           | Some lines \<Rightarrow> tags_of (process_ngram_file lines) w)
   \<and> frequency_of (process_ngram_file
         [tsv [''the'', ''2000'', ''100'', ''9'', ''3''],
          tsv [''the'', ''2001'', ''50'', ''7'', ''2'']]) ''the'' = 150
   \<and> frequency_of (merge_ngram_files
         [Some [tsv [''the'', ''2000'', ''100'', ''9'', ''3''],
                tsv [''the'', ''2001'', ''50'', ''7'', ''2'']],
          Some [tsv [''the'', ''2000'', ''100'', ''9'', ''3''],
                tsv [''the'', ''2001'', ''50'', ''7'', ''2'']]] []) ''the'' = 300"
proof -
  have empty: "frequency_of [] w = 0" "tags_of ([] :: int word_data) w = {}"
    by (simp_all add: frequency_of_def tags_of_def)
  have one_file: "frequency_of (process_ngram_file ls) v = (\<Sum>line\<leftarrow>ls. line_count v line)" for ls v
    by (simp add: process_ngram_file_def frequency_of_foldl_ngram_line frequency_of_absent)
  have tags: "tags_of (process_ngram_file lines) w = (\<Union>line\<in>set lines. line_tags w line)"
    by (simp add: process_ngram_file_def tags_of_foldl_ngram_line tags_of_absent)
  have all_files: "frequency_of (merge_ngram_files fs []) v =
       (\<Sum>f\<leftarrow>fs. case f of None \<Rightarrow> 0
           | Some lines \<Rightarrow> frequency_of (process_ngram_file lines) v)" for fs v
    by (simp add: frequency_of_merge_ngram_files frequency_of_absent)
  have ftags: "tags_of (merge_ngram_files files []) w =
       (\<Union>f\<in>set files. case f of None \<Rightarrow> {}
           | Some lines \<Rightarrow> tags_of (process_ngram_file lines) w)"
    by (simp add: tags_of_merge_ngram_files tags_of_absent)
  have one: "frequency_of (process_ngram_file
         [tsv [''the'', ''2000'', ''100'', ''9'', ''3''],
          tsv [''the'', ''2001'', ''50'', ''7'', ''2'']]) ''the'' = 150"
    by (simp add: one_file line_count_the_2000 line_count_the_2001)
  have two: "frequency_of (merge_ngram_files
         [Some [tsv [''the'', ''2000'', ''100'', ''9'', ''3''],
                tsv [''the'', ''2001'', ''50'', ''7'', ''2'']],
          Some [tsv [''the'', ''2000'', ''100'', ''9'', ''3''],
                tsv [''the'', ''2001'', ''50'', ''7'', ''2'']]] []) ''the'' = 300"
    by (subst all_files) (simp add: one)
  from one_file [of lines w] tags all_files [of files w] ftags one two show ?thesis by blast
qed

section \<open>The header rules\<close>

lemma csv_loop_skipped: "csv_loop True lines d = foldl csv_line d lines"
  by (induction lines arbitrary: d) simp_all

lemma csv_loop_no_header:
  "\<forall>l\<in>set lines. \<not> csv_header l \<Longrightarrow> csv_loop False lines d = foldl csv_line d lines"
  by (induction lines arbitrary: d) simp_all

lemma csv_loop_first_header:
  "\<forall>l\<in>set pre. \<not> csv_header l \<Longrightarrow> csv_header h \<Longrightarrow>
   csv_loop False (pre @ h # post) d = foldl csv_line d (pre @ post)"
  by (induction pre arbitrary: d) (simp_all add: csv_loop_skipped)

lemma csv_header_sword: "csv_header ''sword,300\<newline>''"
  by code_simp

lemma csv_header_cat: "\<not> csv_header ''cat,500\<newline>''"
  by code_simp

lemma parse_csv_line_sword: "parse_csv_line ''sword,300\<newline>'' = Some (''sword'', Fin 300)"
  by code_simp

lemma keep_word_sword: "keep_word ''sword''"
  by code_simp

text \<open>
  Claim C10. In the CSV adapter the header test drops at most one line of a file: the
  first line, wherever it stands, whose text contains \<^verbatim>\<open>word\<close> or \<^verbatim>\<open>freq\<close> in any
  case. Every line before it and every line after it is parsed as data, and a file with
  no such line is parsed as data throughout. The dropped line may be a well-formed data
  line, as \<^verbatim>\<open>sword,300\<close> in the witness.
\<close>

theorem csv_header_dropped_once:
  "((\<forall>l\<in>set pre. \<not> csv_header l) \<and> csv_header h \<longrightarrow>
      get_top_words_from_csv (Some (pre @ h # post)) n = foldl csv_line [] (pre @ post))
   \<and> ((\<forall>l\<in>set lines. \<not> csv_header l) \<longrightarrow>
      get_top_words_from_csv (Some lines) n = foldl csv_line [] lines)"
  by (simp add: get_top_words_from_csv_def csv_loop_first_header csv_loop_no_header)

theorem csv_header_dropped_once_witness:
  "get_top_words_from_csv (Some [''cat,500\<newline>'', ''sword,300\<newline>'', ''dog,700\<newline>'']) 1000
     = foldl csv_line [] [''cat,500\<newline>'', ''dog,700\<newline>'']
   \<and> \<not> csv_header ''cat,500\<newline>'' \<and> csv_header ''sword,300\<newline>''
   \<and> parse_csv_line ''sword,300\<newline>'' = Some (''sword'', Fin 300) \<and> keep_word ''sword''"
  using csv_header_dropped_once [of "[''cat,500\<newline>'']" "''sword,300\<newline>''" "[''dog,700\<newline>'']" 1000 "[]"]
    csv_header_sword csv_header_cat parse_csv_line_sword keep_word_sword
  by simp

lemma wordfreq_loop_skipped: "wordfreq_loop True k lines d = foldl wordfreq_line d lines"
  by (induction lines arbitrary: d k) simp_all

lemma wordfrequency_rank_line:
  "wordfreq_line [] ''3|rank|n.|500\<newline>'' = [(''rank'', \<lparr>freq = Fin 500, pos = {''N''}\<rparr>)]"
  by code_simp

lemma claimed_wordfrequency_rank_line:
  "claimed_wordfrequency [''# lemmas\<newline>'', ''rank|lemma|PoS|freq\<newline>'', ''3|rank|n.|500\<newline>''] = []"
  by code_simp

lemma wordfreq_line_columns: "wordfreq_line [] ''rank|lemma|PoS|freq\<newline>'' = []"
  by code_simp

text \<open>
  Claim C3, as stated, fails: the third line of the file below contains \<^verbatim>\<open>rank\<close>, and
  the adapter parses it as data, where the claim has it skipped. (The second line is
  parsed as well, and yields no word, since its first field is not a number.)
\<close>

theorem wordfrequency_header_counterexample:
  "get_top_words_from_wordfrequency (Some [''# lemmas\<newline>'', ''rank|lemma|PoS|freq\<newline>'', ''3|rank|n.|500\<newline>'']) 1000
     = [(''rank'', \<lparr>freq = Fin 500, pos = {''N''}\<rparr>)]
   \<and> claimed_wordfrequency [''# lemmas\<newline>'', ''rank|lemma|PoS|freq\<newline>'', ''3|rank|n.|500\<newline>''] = []
   \<and> get_top_words_from_wordfrequency (Some [''# lemmas\<newline>'', ''rank|lemma|PoS|freq\<newline>'', ''3|rank|n.|500\<newline>'']) 1000
     \<noteq> claimed_wordfrequency [''# lemmas\<newline>'', ''rank|lemma|PoS|freq\<newline>'', ''3|rank|n.|500\<newline>'']"
  by (simp add: get_top_words_from_wordfrequency_def wordfreq_loop_skipped
      claimed_wordfrequency_rank_line wordfreq_line_columns wordfrequency_rank_line)

text \<open>
  Claim C3, amended. In the lemma-frequency adapter the first line of every input file is
  skipped as a header whatever it contains, and skipping a line turns the header test off:
  every line from the third on is parsed as data, also when it contains \<^verbatim>\<open>rank\<close> or
  \<^verbatim>\<open>lemma\<close>.
\<close>

theorem wordfrequency_header_once:
  "get_top_words_from_wordfrequency (Some (l0 # rest)) n
     = get_top_words_from_wordfrequency (Some (l0' # rest)) n'
   \<and> get_top_words_from_wordfrequency (Some (l0 # l1 # rest)) n
     = foldl wordfreq_line (get_top_words_from_wordfrequency (Some [l0, l1]) n) rest"
  by (simp add: get_top_words_from_wordfrequency_def wordfreq_loop_skipped)

section \<open>The merge steps of the lemma-frequency and CSV adapters\<close>
































section \<open>Frequencies under the merge\<close>






section \<open>The ranking\<close>































section \<open>The keys of the word data\<close>

lemma lower_char_idem: "lower_char (lower_char c) = lower_char c"
  by (auto simp add: lower_char_def code_point_def Let_def)

lemma lower_fixed: "lower s = s \<longleftrightarrow> (\<forall>c\<in>set s. lower_char c = c)"
  by (simp add: lower_def map_idI map_eq_conv [of lower_char s id, simplified])

lemma lower_lower: "lower (lower s) = lower s"
  by (simp add: lower_def lower_char_idem)

lemma lower_takeWhile: "lower s = s \<Longrightarrow> lower (takeWhile P s) = takeWhile P s"
  by (auto simp add: lower_fixed dest: set_takeWhileD)

lemma parse_ngram_line_lower: "parse_ngram_line line = (Some w, n, p) \<Longrightarrow> lower w = w"
  by (auto simp add: parse_ngram_line_def Let_def split1_def lower_lower lower_takeWhile
      split: if_splits option.splits)

lemma try_separator_lower: "try_separator sep line = Some (w, f, p) \<Longrightarrow> lower w = w"
  by (auto simp add: try_separator_def Let_def split1_def lower_lower lower_takeWhile
      split: if_splits option.splits)

lemma parse_wordfrequency_line_lower:
  "parse_wordfrequency_line line = (Some w, f, p) \<Longrightarrow> lower w = w"
  by (auto simp add: parse_wordfrequency_line_def split: option.splits dest: try_separator_lower)

lemma parse_csv_line_lower: "parse_csv_line line = Some (w, f) \<Longrightarrow> lower w = w"
  by (auto simp add: parse_csv_line_def Let_def lower_lower split: if_splits option.splits)

lemma well_keyed_Nil: "well_keyed []"
  by (simp add: well_keyed_def)

lemma well_keyed_update:
  "well_keyed d \<Longrightarrow> keep_word w \<Longrightarrow> lower w = w \<Longrightarrow> well_keyed (AList.update w e d)"
  by (auto simp add: well_keyed_def dom_update)

lemma well_keyed_ngram_line: "well_keyed d \<Longrightarrow> well_keyed (ngram_line d line)"
  by (auto simp add: ngram_line_def add_count_def Let_def
      intro!: well_keyed_update dest: parse_ngram_line_lower split: prod.splits option.splits)

lemma well_keyed_wordfreq_line: "well_keyed d \<Longrightarrow> well_keyed (wordfreq_line d line)"
  by (auto simp add: wordfreq_line_def
      intro!: well_keyed_update dest: parse_wordfrequency_line_lower
      split: prod.splits option.splits)

lemma well_keyed_csv_line: "well_keyed d \<Longrightarrow> well_keyed (csv_line d line)"
  by (auto simp add: csv_line_def
      intro!: well_keyed_update dest: parse_csv_line_lower split: prod.splits option.splits)

lemma well_keyed_foldl:
  assumes "\<And>d line. well_keyed d \<Longrightarrow> well_keyed (step d line)"
  shows "well_keyed d \<Longrightarrow> well_keyed (foldl step d lines)"
  by (induction lines arbitrary: d) (simp_all add: assms)

lemma well_keyed_process_ngram_file: "well_keyed (process_ngram_file lines)"
  by (simp add: process_ngram_file_def well_keyed_foldl well_keyed_ngram_line well_keyed_Nil)

lemma well_keyed_merge_entry:
  "well_keyed d \<Longrightarrow> keep_word (fst x) \<Longrightarrow> lower (fst x) = fst x \<Longrightarrow> well_keyed (merge_entry d x)"
  by (simp add: merge_entry_def Let_def well_keyed_update)

lemma well_keyed_foldl_merge_entry:
  "well_keyed d \<Longrightarrow> well_keyed xs \<Longrightarrow> well_keyed (foldl merge_entry d xs)"
proof (induction xs arbitrary: d)
  case Nil
  then show ?case by simp
next
  case (Cons x xs)
  from Cons.prems(2) have x: "keep_word (fst x)" "lower (fst x) = fst x" and xs: "well_keyed xs"
    by (simp_all add: well_keyed_def)
  with Cons.prems(1) have "well_keyed (merge_entry d x)"
    by (simp add: well_keyed_merge_entry)
  with Cons.IH xs show ?case by simp
qed

lemma well_keyed_merge_ngram_files:
  "well_keyed d \<Longrightarrow> well_keyed (merge_ngram_files files d)"
proof (induction files arbitrary: d)
  case Nil
  then show ?case by simp
next
  case (Cons f files)
  then show ?case
    by (cases f) (simp_all add: well_keyed_foldl_merge_entry well_keyed_process_ngram_file)
qed

lemma well_keyed_wordfreq_loop:
  "well_keyed d \<Longrightarrow> well_keyed (wordfreq_loop hs k lines d)"
  by (induction lines arbitrary: d hs k) (simp_all add: well_keyed_wordfreq_line)

lemma well_keyed_csv_loop: "well_keyed d \<Longrightarrow> well_keyed (csv_loop hs lines d)"
  by (induction lines arbitrary: d hs) (simp_all add: well_keyed_csv_line)

lemma well_keyed_wordfrequency: "well_keyed (get_top_words_from_wordfrequency f n)"
  by (cases f) (simp_all add: get_top_words_from_wordfrequency_def well_keyed_Nil
      well_keyed_wordfreq_loop)

lemma well_keyed_csv: "well_keyed (get_top_words_from_csv f n)"
  by (cases f) (simp_all add: get_top_words_from_csv_def well_keyed_Nil well_keyed_csv_loop)

lemma collect_well_keyed:
  "(collect a = Inr (Inl ci) \<longrightarrow> well_keyed ci) \<and> (collect a = Inr (Inr cf) \<longrightarrow> well_keyed cf)"
  by (auto simp add: collect_def Let_def well_keyed_merge_ngram_files well_keyed_Nil
      well_keyed_wordfrequency well_keyed_csv split: if_splits option.splits)

lemma survivors_well_keyed: "well_keyed d \<Longrightarrow> survivors d = d"
  by (auto simp add: survivors_def well_keyed_def keep_word_def intro!: filter_True)






section \<open>The end of the run\<close>

lemma csv_no_words_loop: "csv_loop False [''x1,5\<newline>'', ''toolong,7\<newline>''] [] = []"
  by code_simp

lemma csv_no_words: "get_top_words_from_csv (Some [''x1,5\<newline>'', ''toolong,7\<newline>'']) n = []"
  unfolding get_top_words_from_csv_def option.case by (rule csv_no_words_loop)

text \<open>
  Claim C9. When no word of the collected data survives the filter on alphabetic words of
  at most six characters, the run ends in \<^verbatim>\<open>sys.exit(1)\<close>: it writes nothing, since the
  exit comes before the output is opened and the lines are written only after the whole
  aggregate has been built.
\<close>

theorem empty_result_is_fatal:
  "(\<forall>d. collect a = Inr (Inl d) \<longrightarrow> survivors d = [])
   \<and> (\<forall>d. collect a = Inr (Inr d) \<longrightarrow> survivors d = [])
   \<longrightarrow> (\<exists>e. main a = Inl e)"
proof
  assume h: "(\<forall>d. collect a = Inr (Inl d) \<longrightarrow> survivors d = [])
   \<and> (\<forall>d. collect a = Inr (Inr d) \<longrightarrow> survivors d = [])"
  show "\<exists>e. main a = Inl e"
  proof (cases "collect a")
    case (Inl e)
    then show ?thesis by (simp add: main_def)
  next
    case (Inr s)
    show ?thesis
    proof (cases s)
      case (Inl d)
      with Inr h collect_well_keyed [of a d] have "d = []"
        by (auto simp add: survivors_well_keyed)
      with Inl Inr show ?thesis by (simp add: main_def finish_def)
    next
      case (Inr d)
      with \<open>collect a = Inr s\<close> h collect_well_keyed [of a _ d] have "d = []"
        by (auto simp add: survivors_well_keyed)
      with Inr \<open>collect a = Inr s\<close> show ?thesis by (simp add: main_def finish_def)
    qed
  qed
qed

theorem empty_result_is_fatal_witness:
  "collect \<lparr>top_n = 1000, ngram = None, download_coca = False, coca_download = None,
         wordfreq = None, csv = Some (Some [''x1,5\<newline>'', ''toolong,7\<newline>''])\<rparr> = Inr (Inr [])
   \<and> survivors ([] :: pyfloat word_data) = []
   \<and> (\<exists>e. main \<lparr>top_n = 1000, ngram = None, download_coca = False, coca_download = None,
         wordfreq = None, csv = Some (Some [''x1,5\<newline>'', ''toolong,7\<newline>''])\<rparr> = Inl e)"
proof -
  have c: "collect \<lparr>top_n = 1000, ngram = None, download_coca = False, coca_download = None,
         wordfreq = None, csv = Some (Some [''x1,5\<newline>'', ''toolong,7\<newline>''])\<rparr> = Inr (Inr [])"
    by (simp add: collect_def csv_no_words)
  have s: "survivors ([] :: pyfloat word_data) = []"
    by (simp add: survivors_def)
  from empty_result_is_fatal
    [of "\<lparr>top_n = 1000, ngram = None, download_coca = False, coca_download = None,
         wordfreq = None, csv = Some (Some [''x1,5\<newline>'', ''toolong,7\<newline>''])\<rparr>"] c s
  show ?thesis by simp
qed

section \<open>A lemma-frequency line from end to end\<close>
















end
